theory Spec2Isabelle
  imports Complex_Main
begin

section \<open>JavaScript primitives used by the scripts\<close>





text \<open>\<^verbatim>\<open>s.split(c)\<close> for a one-character separator: never the empty array.\<close>

fun split :: "char \<Rightarrow> string \<Rightarrow> string list" where
  "split c [] = [[]]"
| "split c (x # xs) =
     (if x = c then [] # split c xs
      else (case split c xs of
              [] \<Rightarrow> [[x]]
            | y # ys \<Rightarrow> (x # y) # ys))"




text \<open>\<^verbatim>\<open>Math.round(x)\<close>: the nearest integer, a tie going up.\<close>

definition mathRound :: "rat \<Rightarrow> int" where
  "mathRound x = \<lfloor>x + 1 / 2\<rfloor>"

text \<open>\<^verbatim>\<open>v || d\<close> on an optional number: undefined and 0 are both falsy.\<close>

definition orDefault :: "rat option \<Rightarrow> rat \<Rightarrow> rat" where
  "orDefault v d = (case v of None \<Rightarrow> d | Some x \<Rightarrow> if x = 0 then d else x)"

text \<open>A default parameter \<^verbatim>\<open>(gutter: number = 10)\<close>: only undefined takes the default.\<close>

definition paramDefault :: "rat option \<Rightarrow> rat \<Rightarrow> rat" where
  "paramDefault v d = (case v of None \<Rightarrow> d | Some x \<Rightarrow> x)"

text \<open>The decimal text of an integer, as a template literal prints it.\<close>

fun natDigits :: "nat \<Rightarrow> string" where
  "natDigits n =
     (if n < 10 then [char_of (48 + n)]
      else natDigits (n div 10) @ [char_of (48 + n mod 10)])"

definition showInt :: "int \<Rightarrow> string" where
  "showInt i = (if i < 0 then CHR ''-'' # natDigits (nat (- i)) else natDigits (nat i))"


section \<open>Data model (types.ts)\<close>

text \<open>
  The records keep the fields that the functions below read. The fields left out (the
  characters, the focus and the notes of a panel, the meta data, the style and the
  characters of the project) are read by the prompt compositor only, which is a
  parameter of the runner.
\<close>

record GridPosition =
  row :: rat
  col :: rat

record PanelConfig =
  panelId :: string
  position :: GridPosition
  rowspan :: "rat option"
  colspan :: "rat option"
  prompt :: string
  aspectRatio :: "string option"

record GridSettings =
  rows :: rat
  cols :: rat
  gutter :: "rat option"

record LayoutConfig =
  layoutType :: string
  grid :: "GridSettings option"
  panels :: "PanelConfig list"

record PageConfig =
  pageId :: string
  layout :: LayoutConfig

record PageSettings =
  psAspectRatio :: string
  dpi :: "rat option"
  psWidth :: "rat option"
  psHeight :: "rat option"

record FlexicomicConfig =
  pageSettings :: PageSettings
  pages :: "PageConfig list"

record PageSize =
  width :: rat
  height :: rat

record PanelBounds =
  boundsX :: rat
  boundsY :: rat
  boundsW :: rat
  boundsH :: rat

datatype error =
    InvalidAspectRatio string
  | InvalidPageRange string
  | InvalidPageNumber string
  | InvalidPanelRangeFormat
  | PageNotFound string
  | InvalidPanelRange string
  | InvalidPanelNumber string
  | ProviderError string
  | ComposeError string
  | NullError


section \<open>Grid geometry (utils/layout-parser.ts)\<close>

definition calculatePanelBoundsCustom ::
  "PanelConfig \<Rightarrow> GridSettings \<Rightarrow> PageSize \<Rightarrow> PanelBounds" where
  "calculatePanelBoundsCustom panel g pageSize =
     (let rowspan' = orDefault (rowspan panel) 1;
          colspan' = orDefault (colspan panel) 1;
          gutter' = orDefault (gutter g) 10;
          cellWidth = (width pageSize - gutter' * (cols g + 1)) / cols g;
          cellHeight = (height pageSize - gutter' * (rows g + 1)) / rows g
      in \<lparr> boundsX = gutter' + col (position panel) * (cellWidth + gutter'),
           boundsY = gutter' + row (position panel) * (cellHeight + gutter'),
           boundsW = colspan' * cellWidth + (colspan' - 1) * gutter',
           boundsH = rowspan' * cellHeight + (rowspan' - 1) * gutter' \<rparr>)"

text \<open>The sibling helper of the same file, whose gutter is a default parameter.\<close>

definition calculateGridDimensions ::
  "rat \<Rightarrow> rat \<Rightarrow> PageSize \<Rightarrow> rat option \<Rightarrow> rat \<times> rat" where
  "calculateGridDimensions rs cs pageSize gutterArg =
     (let gutter' = paramDefault gutterArg 10;
          cellWidth = (width pageSize - gutter' * (cs + 1)) / cs;
          cellHeight = (height pageSize - gutter' * (rs + 1)) / rs
      in (cellWidth, cellHeight))"

definition getLayoutGrid :: "string \<Rightarrow> nat \<Rightarrow> GridSettings" where
  "getLayoutGrid layoutType' panelsCount =
     (if layoutType' = ''2x2-grid'' then \<lparr> rows = 2, cols = 2, gutter = Some 10 \<rparr>
      else if layoutType' = ''cinematic'' then \<lparr> rows = 3, cols = 2, gutter = Some 10 \<rparr>
      else if layoutType' = ''webtoon'' then \<lparr> rows = of_nat panelsCount, cols = 1, gutter = Some 5 \<rparr>
      else if layoutType' = ''dense'' then \<lparr> rows = 3, cols = 3, gutter = Some 8 \<rparr>
      else if layoutType' = ''splash'' then \<lparr> rows = 1, cols = 1, gutter = Some 0 \<rparr>
      else \<lparr> rows = 2, cols = 2, gutter = Some 10 \<rparr>)"

text \<open>
  \<^verbatim>\<open>page.layout.grid || getLayoutGrid(page.layout.type, page.layout.panels.length)\<close>, the
  grid that the panel runner and the page compositor hand to the geometry function.
\<close>

definition effectiveGrid :: "PageConfig \<Rightarrow> GridSettings" where
  "effectiveGrid page =
     (case grid (layout page) of
        Some g \<Rightarrow> g
      | None \<Rightarrow> getLayoutGrid (layoutType (layout page)) (length (panels (layout page))))"




section \<open>Image provider adapter (utils/image-gen-adapter.ts)\<close>

datatype Provider = google | openai | dashscope

record ImageGenOptions =
  igPrompt :: string
  igOutput :: string
  igAr :: "string option"
  igQuality :: "string option"
  igProvider :: "Provider option"
  igRefImages :: "string list option"

text \<open>
  What a run leaves behind: the files on disk, the provider calls made (in order, with
  their options), and the lines written to the console.
\<close>

datatype event =
    RetryWarning nat
  | JobWarning string error
  | Progress nat nat
  | ProgressDone nat nat
  | ParallelBanner nat
  | SequentialBanner
  | SequentialStatus nat nat string
  | PromptBuilt string
  | ComposeWarning string error
  | ComposeCreated string

record world =
  files :: "string list"
  calls :: "ImageGenOptions list"
  log :: "event list"

text \<open>
  The image backend is outside the scripts: it is a parameter, which tells for the
  \<open>n\<close>-th call of the run and its options whether the call fails (with a message) or
  succeeds. A call that succeeds has written the image at the output path.
\<close>

type_synonym backend = "nat \<Rightarrow> ImageGenOptions \<Rightarrow> string option"

definition callImageGen :: "backend \<Rightarrow> ImageGenOptions \<Rightarrow> world \<Rightarrow> (error + unit) \<times> world" where
  "callImageGen be options wd =
     (let wd1 = wd\<lparr>calls := calls wd @ [options]\<rparr> in
      case be (length (calls wd)) options of
        Some msg \<Rightarrow> (Inl (ProviderError msg), wd1)
      | None \<Rightarrow> (Inr (), wd1\<lparr>files := igOutput options # files wd1\<rparr>))"

text \<open>
  The loop \<^verbatim>\<open>for (let attempt = 0; attempt <= maxRetries; attempt++)\<close> with its
  \<^verbatim>\<open>lastError\<close>; falling out of the loop throws \<^verbatim>\<open>lastError\<close>.
\<close>

function retryLoop ::
  "backend \<Rightarrow> ImageGenOptions \<Rightarrow> nat \<Rightarrow> nat \<Rightarrow> error option \<Rightarrow> world \<Rightarrow> (error + unit) \<times> world" where
  "retryLoop be options maxRetries attempt lastError wd =
     (if attempt \<le> maxRetries then
        (case callImageGen be options wd of
           (Inr u, wd1) \<Rightarrow> (Inr (), wd1)
         | (Inl e, wd1) \<Rightarrow>
             retryLoop be options maxRetries (attempt + 1) (Some e)
               (if attempt < maxRetries
                then wd1\<lparr>log := log wd1 @ [RetryWarning (attempt + 1)]\<rparr>
                else wd1))
      else (case lastError of None \<Rightarrow> (Inl NullError, wd) | Some e \<Rightarrow> (Inl e, wd)))"
  by pat_completeness auto
termination
  by (relation "measure (\<lambda>(be, options, maxRetries, attempt, lastError, wd). maxRetries + 1 - attempt)") auto

definition callImageGenWithRetry ::
  "backend \<Rightarrow> ImageGenOptions \<Rightarrow> nat \<Rightarrow> world \<Rightarrow> (error + unit) \<times> world" where
  "callImageGenWithRetry be options maxRetries wd = retryLoop be options maxRetries 0 None wd"

text \<open>
  \<^verbatim>\<open>a % b\<close>: the remainder has the sign of the dividend. On the numbers of the scripts it
  is computed without rounding, as it is here.
\<close>

definition truncRat :: "rat \<Rightarrow> int" where
  "truncRat q = (if 0 \<le> q then \<lfloor>q\<rfloor> else \<lceil>q\<rceil>)"

definition jsRem :: "rat \<Rightarrow> rat \<Rightarrow> rat" where
  "jsRem a b = a - b * of_int (truncRat (a / b))"


text \<open>
  The local \<^verbatim>\<open>gcd\<close> of \<^verbatim>\<open>calculatePanelAspectRatio\<close> is Euclid's algorithm on numbers that
  need not be whole. It ends because both arguments stay whole multiples of one unit,
  the inverse of the least common multiple of their denominators.
\<close>

definition den :: "rat \<Rightarrow> int" where
  "den q = snd (quotient_of q)"

definition euclidMeasure :: "rat \<times> rat \<Rightarrow> nat" where
  "euclidMeasure p = nat \<lfloor>\<bar>snd p\<bar> * of_int (lcm (den (fst p)) (den (snd p)))\<rfloor>"

lemma den_pos: "0 < den q"
  by (simp add: den_def quotient_of_denom_pos')

lemma den_dvd_iff:
  assumes "0 < D"
  shows "den q dvd D \<longleftrightarrow> q * of_int D \<in> \<int>"
proof -
  obtain n d where nd: "quotient_of q = (n, d)" by (cases "quotient_of q")
  then have d: "0 < d" and cop: "coprime n d" and q: "q = of_int n / of_int d"
    by (auto simp: quotient_of_denom_pos quotient_of_coprime quotient_of_div)
  have dd: "den q = d" by (simp add: den_def nd)
  show ?thesis
  proof
    assume "den q dvd D"
    then obtain k where "D = d * k" using dd by (auto simp: dvd_def)
    then have "q * of_int D = of_int (n * k)" using q d by simp
    then show "q * of_int D \<in> \<int>" by (metis Ints_of_int)
  next
    assume "q * of_int D \<in> \<int>"
    then obtain m where m: "q * of_int D = of_int m" by (auto elim: Ints_cases)
    then have "(of_int (n * D) :: rat) = of_int (m * d)" using q d by (simp add: field_simps)
    then have "n * D = m * d" by (simp only: of_int_eq_iff)
    then have "d dvd n * D" by simp
    then have "d dvd D" using cop by (simp add: coprime_commute coprime_dvd_mult_right_iff)
    then show "den q dvd D" by (simp add: dd)
  qed
qed

lemma trunc_bound: "\<bar>q - of_int (truncRat q)\<bar> < 1"
  unfolding truncRat_def by (auto; linarith)

lemma jsRem_less:
  assumes "b \<noteq> 0"
  shows "\<bar>jsRem a b\<bar> < \<bar>b\<bar>"
proof -
  have "jsRem a b = b * (a / b - of_int (truncRat (a / b)))"
    using assms by (simp add: jsRem_def field_simps)
  then have "\<bar>jsRem a b\<bar> = \<bar>b\<bar> * \<bar>a / b - of_int (truncRat (a / b))\<bar>"
    by (simp add: abs_mult)
  also have "\<dots> < \<bar>b\<bar> * 1"
    using assms trunc_bound[of "a / b"] by (intro mult_strict_left_mono) auto
  finally show ?thesis by simp
qed

lemma lcm_den_pos: "0 < lcm (den a) (den b)"
  using den_pos[of a] den_pos[of b] by (simp add: lcm_pos_int less_le)

lemma den_jsRem_dvd: "den (jsRem a b) dvd lcm (den a) (den b)"
proof -
  let ?L = "lcm (den a) (den b)"
  have L: "0 < ?L" by (rule lcm_den_pos)
  have a: "a * of_int ?L \<in> \<int>" and b: "b * of_int ?L \<in> \<int>"
    using L by (simp_all add: den_dvd_iff[symmetric])
  have "jsRem a b * of_int ?L = a * of_int ?L - of_int (truncRat (a / b)) * (b * of_int ?L)"
    by (simp add: jsRem_def algebra_simps)
  also have "\<dots> \<in> \<int>"
  proof (rule Ints_diff)
    show "a * of_int ?L \<in> \<int>" by (rule a)
    show "of_int (truncRat (a / b)) * (b * of_int ?L) \<in> \<int>"
      using b by (rule Ints_mult[OF Ints_of_int])
  qed
  finally show ?thesis using L by (simp add: den_dvd_iff)
qed

lemma euclid_decreases:
  assumes "b \<noteq> 0"
  shows "euclidMeasure (b, jsRem a b) < euclidMeasure (a, b)"
proof -
  let ?r = "jsRem a b"
  let ?L = "lcm (den a) (den b)"
  let ?L' = "lcm (den b) (den ?r)"
  have L: "0 < ?L" and L': "0 < ?L'" by (rule lcm_den_pos)+
  have "?L' dvd ?L" by (intro lcm_least) (simp_all add: den_jsRem_dvd)
  then have le: "?L' \<le> ?L" using L by (rule zdvd_imp_le)
  have "b * of_int ?L \<in> \<int>" using L by (simp add: den_dvd_iff[symmetric])
  then have "\<bar>b\<bar> * of_int ?L \<in> \<int>"
    by (metis Ints_abs abs_mult abs_of_pos L of_int_0_less_iff)
  then obtain m where m: "\<bar>b\<bar> * of_int ?L = of_int m" by (auto elim: Ints_cases)
  have "\<bar>?r\<bar> * of_int ?L' \<le> \<bar>?r\<bar> * of_int ?L"
    using le by (intro mult_left_mono) auto
  also have "\<dots> < \<bar>b\<bar> * of_int ?L"
    using jsRem_less[OF assms, of a] L by (intro mult_strict_right_mono) auto
  finally have lt: "\<bar>?r\<bar> * of_int ?L' < of_int m" using m by simp
  then have "\<lfloor>\<bar>?r\<bar> * of_int ?L'\<rfloor> < m" by (simp add: floor_less_iff)
  moreover have "0 \<le> \<lfloor>\<bar>?r\<bar> * of_int ?L'\<rfloor>" using L' by simp
  ultimately have "nat \<lfloor>\<bar>?r\<bar> * of_int ?L'\<rfloor> < nat m" by linarith
  then show ?thesis
    by (simp add: euclidMeasure_def m)
qed

function gcdJs :: "rat \<Rightarrow> rat \<Rightarrow> rat" where
  "gcdJs a b = (if b = 0 then a else gcdJs b (jsRem a b))"
  by pat_completeness auto
termination
  by (relation "measure euclidMeasure") (auto simp: euclid_decreases)

declare gcdJs.simps [simp del]

text \<open>
  \<^verbatim>\<open>calculatePanelAspectRatio\<close>. With both sides 0 the divisor is 0 and the script
  prints \<^verbatim>\<open>NaN:NaN\<close>.
\<close>

definition calculatePanelAspectRatio :: "rat \<Rightarrow> rat \<Rightarrow> string" where
  "calculatePanelAspectRatio panelWidth panelHeight =
     (let divisor = gcdJs panelWidth panelHeight in
      if divisor = 0 then ''NaN:NaN''
      else showInt (mathRound (panelWidth / divisor)) @ '':'' @
           showInt (mathRound (panelHeight / divisor)))"


section \<open>Render job runner and generation controller (parallel.ts)\<close>

record PanelToGenerate =
  jobPage :: PageConfig
  jobPanel :: PanelConfig
  pageIndex :: int
  panelIndex :: nat

text \<open>
  The prompt compositor is a collaborator of the runner: what it returns for a panel is
  a parameter here, and each call of it is written to the log.
\<close>

record collaborators =
  imageBackend :: backend
  buildPanelPrompt :: "FlexicomicConfig \<Rightarrow> PageConfig \<Rightarrow> PanelConfig \<Rightarrow> string"
  getCharacterReferenceImages ::
    "FlexicomicConfig \<Rightarrow> PageConfig \<Rightarrow> PanelConfig \<Rightarrow> string \<Rightarrow> string list \<Rightarrow> string list"

text \<open>\<^verbatim>\<open>path.join(a, b, c)\<close> on segments that need no normalisation.\<close>

definition pathJoin3 :: "string \<Rightarrow> string \<Rightarrow> string \<Rightarrow> string" where
  "pathJoin3 a b c = a @ ''/'' @ b @ ''/'' @ c"

definition panelOutputPath :: "string \<Rightarrow> PanelConfig \<Rightarrow> string" where
  "panelOutputPath outputDir pn = pathJoin3 outputDir ''panels'' (panelId pn @ ''.png'')"

definition existsSync :: "string \<Rightarrow> world \<Rightarrow> bool" where
  "existsSync path wd = (path \<in> set (files wd))"

text \<open>\<^verbatim>\<open>panel.aspectRatio || calculatePanelAspectRatio(bounds.w, bounds.h)\<close>\<close>

definition panelAr :: "PageConfig \<Rightarrow> PanelConfig \<Rightarrow> string" where
  "panelAr pg pn =
     (let g = effectiveGrid pg;
          pageSize = \<lparr> width = 1200, height = 1600 \<rparr>;
          bounds = calculatePanelBoundsCustom pn g pageSize
      in case aspectRatio pn of
           Some s \<Rightarrow> if s \<noteq> [] then s
                     else calculatePanelAspectRatio (boundsW bounds) (boundsH bounds)
         | None \<Rightarrow> calculatePanelAspectRatio (boundsW bounds) (boundsH bounds))"

text \<open>
  The options of the provider call of a job. The reference images are those that the
  collaborator finds on disk when the job starts.
\<close>

definition panelOptions ::
  "collaborators \<Rightarrow> PanelToGenerate \<Rightarrow> FlexicomicConfig \<Rightarrow> string \<Rightarrow> Provider \<Rightarrow> world
     \<Rightarrow> ImageGenOptions" where
  "panelOptions env item config outputDir provider wd =
     (let pg = jobPage item; pn = jobPanel item;
          refImages = getCharacterReferenceImages env config pg pn outputDir (files wd)
      in \<lparr> igPrompt = buildPanelPrompt env config pg pn,
           igOutput = panelOutputPath outputDir pn,
           igAr = Some (panelAr pg pn),
           igQuality = Some ''2k'',
           igProvider = Some provider,
           igRefImages = (if refImages \<noteq> [] then Some refImages else None) \<rparr>)"

definition generateSinglePanel ::
  "collaborators \<Rightarrow> PanelToGenerate \<Rightarrow> FlexicomicConfig \<Rightarrow> string \<Rightarrow> Provider \<Rightarrow> world
     \<Rightarrow> (error + unit) \<times> world" where
  "generateSinglePanel env item config outputDir provider wd =
     (if existsSync (panelOutputPath outputDir (jobPanel item)) wd then (Inr (), wd)
      else
        callImageGenWithRetry (imageBackend env)
          (panelOptions env item config outputDir provider wd) 2
          (wd\<lparr>log := log wd @ [PromptBuilt (panelId (jobPanel item))]\<rparr>))"

text \<open>
  The progress callback of \<^verbatim>\<open>generatePanelParallel\<close> closes over its counter
  \<^verbatim>\<open>completed\<close>, which is threaded here next to the world. The progress line shows
  \<open>completed/total\<close> and a percentage computed from the two, which the event leaves out.
\<close>

definition onProgress :: "nat \<Rightarrow> nat \<times> world \<Rightarrow> nat \<times> world" where
  "onProgress totalJobs st =
     (let completed = fst st + 1; wd = snd st
      in (completed, wd\<lparr>log := log wd @ [Progress completed totalJobs]\<rparr>))"

definition generatePanelWithProgress ::
  "collaborators \<Rightarrow> PanelToGenerate \<Rightarrow> FlexicomicConfig \<Rightarrow> string \<Rightarrow> Provider \<Rightarrow> nat
     \<Rightarrow> nat \<times> world \<Rightarrow> (error + unit) \<times> (nat \<times> world)" where
  "generatePanelWithProgress env item config outputDir provider totalJobs st =
     (case generateSinglePanel env item config outputDir provider (snd st) of
        (Inr u, wd1) \<Rightarrow> (Inr (), onProgress totalJobs (fst st, wd1))
      | (Inl e, wd1) \<Rightarrow>
          (Inr (), onProgress totalJobs
             (fst st, wd1\<lparr>log := log wd1 @ [JobWarning (panelId (jobPanel item)) e]\<rparr>)))"

text \<open>
  \<^verbatim>\<open>await Promise.all(batch.map(...))\<close>: every job of the batch is started, and the await
  throws the first rejection if there is one. The jobs of a batch are run here one after
  the other, in the order of the batch.
\<close>

fun promiseAll ::
  "collaborators \<Rightarrow> FlexicomicConfig \<Rightarrow> string \<Rightarrow> Provider \<Rightarrow> nat \<Rightarrow> PanelToGenerate list
     \<Rightarrow> nat \<times> world \<Rightarrow> (error + unit) \<times> (nat \<times> world)" where
  "promiseAll env config outputDir provider totalJobs [] st = (Inr (), st)"
| "promiseAll env config outputDir provider totalJobs (item # batch) st =
     (case generatePanelWithProgress env item config outputDir provider totalJobs st of
        (r, st1) \<Rightarrow>
          (case promiseAll env config outputDir provider totalJobs batch st1 of
             (rs, st2) \<Rightarrow> ((case r of Inl e \<Rightarrow> Inl e | Inr u \<Rightarrow> rs), st2)))"

text \<open>\<^verbatim>\<open>Math.min(Math.max(1, options.concurrency || 4), 8)\<close>\<close>

definition clampConcurrency :: "int option \<Rightarrow> nat" where
  "clampConcurrency c =
     nat (min (max 1 (case c of None \<Rightarrow> 4 | Some n \<Rightarrow> if n = 0 then 4 else n)) 8)"

text \<open>
  The batch loop \<^verbatim>\<open>for (let i = 0; i < panels.length; i += concurrency)\<close>. The clamped
  concurrency is a constant of the run; it is taken from the option inside the loop so
  that the step is visibly at least 1.
\<close>

function batchLoop ::
  "collaborators \<Rightarrow> PanelToGenerate list \<Rightarrow> FlexicomicConfig \<Rightarrow> string \<Rightarrow> Provider
     \<Rightarrow> int option \<Rightarrow> nat \<Rightarrow> nat \<times> world \<Rightarrow> (error + unit) \<times> (nat \<times> world)" where
  "batchLoop env items config outputDir provider conc i st =
     (if i < length items then
        (let concurrency = clampConcurrency conc;
             batch = take concurrency (drop i items)
         in case promiseAll env config outputDir provider (length items) batch st of
              (Inl e, st1) \<Rightarrow> (Inl e, st1)
            | (Inr u, st1) \<Rightarrow>
                batchLoop env items config outputDir provider conc (i + concurrency) st1)
      else (Inr (), st))"
  by pat_completeness auto
termination
  by (relation "measure (\<lambda>(env, items, config, outputDir, provider, conc, i, st). length items - i)")
     (auto simp: clampConcurrency_def split: option.splits)

definition generatePanelParallel ::
  "collaborators \<Rightarrow> PanelToGenerate list \<Rightarrow> FlexicomicConfig \<Rightarrow> string \<Rightarrow> Provider
     \<Rightarrow> int option \<Rightarrow> world \<Rightarrow> (error + unit) \<times> world" where
  "generatePanelParallel env items config outputDir provider conc wd =
     (let wd0 = wd\<lparr>log := log wd @ [ParallelBanner (clampConcurrency conc)]\<rparr> in
      case batchLoop env items config outputDir provider conc 0 (0, wd0) of
        (Inl e, st) \<Rightarrow> (Inl e, snd st)
      | (Inr u, st) \<Rightarrow>
          (Inr (), (snd st)\<lparr>log := log (snd st) @ [ProgressDone (fst st) (length items)]\<rparr>))"

text \<open>
  The loop of \<^verbatim>\<open>generatePanelSequential\<close>, with \<open>i\<close> the index of the first job left.
\<close>

fun sequentialLoop ::
  "collaborators \<Rightarrow> FlexicomicConfig \<Rightarrow> string \<Rightarrow> Provider \<Rightarrow> nat \<Rightarrow> nat
     \<Rightarrow> PanelToGenerate list \<Rightarrow> world \<Rightarrow> (error + unit) \<times> world" where
  "sequentialLoop env config outputDir provider totalJobs i [] wd = (Inr (), wd)"
| "sequentialLoop env config outputDir provider totalJobs i (item # rest) wd =
     (let wd1 = wd\<lparr>log := log wd @
                  [SequentialStatus (i + 1) totalJobs (panelId (jobPanel item))]\<rparr>
      in case generateSinglePanel env item config outputDir provider wd1 of
           (Inl e, wd2) \<Rightarrow> (Inl e, wd2)
         | (Inr u, wd2) \<Rightarrow> sequentialLoop env config outputDir provider totalJobs (i + 1) rest wd2)"

definition generatePanelSequential ::
  "collaborators \<Rightarrow> PanelToGenerate list \<Rightarrow> FlexicomicConfig \<Rightarrow> string \<Rightarrow> Provider
     \<Rightarrow> world \<Rightarrow> (error + unit) \<times> world" where
  "generatePanelSequential env items config outputDir provider wd =
     sequentialLoop env config outputDir provider (length items) 0 items
       (wd\<lparr>log := log wd @ [SequentialBanner]\<rparr>)"


section \<open>Page and panel selection (validation.ts)\<close>

text \<open>
  \<^verbatim>\<open>[...new Set(xs)]\<close>: the elements of \<open>xs\<close> in the order of their first occurrence.
\<close>

fun setInsertAll :: "'a list \<Rightarrow> 'a list \<Rightarrow> 'a list" where
  "setInsertAll seen [] = seen"
| "setInsertAll seen (v # vs) = setInsertAll (if v \<in> set seen then seen else seen @ [v]) vs"

definition newSet :: "'a list \<Rightarrow> 'a list" where
  "newSet xs = setInsertAll [] xs"












section \<open>Work enumeration (generate.ts)\<close>








section \<open>Page composition (composite.ts)\<close>





section \<open>Notions used in the statements\<close>

text \<open>The progress lines among the events of the log.\<close>

definition isProgress :: "event \<Rightarrow> bool" where
  "isProgress e = (case e of Progress c t \<Rightarrow> True | ProgressDone c t \<Rightarrow> True | _ \<Rightarrow> False)"







section \<open>Example inputs\<close>

definition exPanel :: "string \<Rightarrow> PanelConfig" where
  "exPanel n = \<lparr> panelId = n, position = \<lparr> row = 0, col = 0 \<rparr>, rowspan = None,
                 colspan = None, prompt = ''a scene'', aspectRatio = None \<rparr>"

definition exPage :: "string \<Rightarrow> string \<Rightarrow> string list \<Rightarrow> PageConfig" where
  "exPage n ty ids =
     \<lparr> pageId = n, layout = \<lparr> layoutType = ty, grid = None, panels = map exPanel ids \<rparr> \<rparr>"

definition exConfig :: "string \<Rightarrow> PageConfig list \<Rightarrow> FlexicomicConfig" where
  "exConfig ar pgs =
     \<lparr> pageSettings = \<lparr> psAspectRatio = ar, dpi = None, psWidth = None, psHeight = None \<rparr>,
       pages = pgs \<rparr>"

text \<open>A backend that fails exactly on the calls that \<open>failing\<close> picks out.\<close>

definition exBackend :: "(nat \<Rightarrow> ImageGenOptions \<Rightarrow> bool) \<Rightarrow> backend" where
  "exBackend failing = (\<lambda>n opts. if failing n opts then Some ''provider down'' else None)"

definition exEnv :: "(nat \<Rightarrow> ImageGenOptions \<Rightarrow> bool) \<Rightarrow> collaborators" where
  "exEnv failing =
     \<lparr> imageBackend = exBackend failing,
       buildPanelPrompt = (\<lambda>config pg pn. prompt pn),
       getCharacterReferenceImages = (\<lambda>config pg pn outputDir fs. []) \<rparr>"

definition exJob :: "string \<Rightarrow> PanelToGenerate" where
  "exJob n =
     \<lparr> jobPage = exPage ''page1'' ''2x2-grid'' [''a'', ''b'', ''c''], jobPanel = exPanel n,
       pageIndex = 1, panelIndex = 0 \<rparr>"

definition exWorld :: "string list \<Rightarrow> world" where
  "exWorld fs = \<lparr> files = fs, calls = [], log = [] \<rparr>"

definition exOptions :: ImageGenOptions where
  "exOptions = \<lparr> igPrompt = ''a scene'', igOutput = ''out/panels/a.png'', igAr = Some ''3:4'',
                 igQuality = Some ''2k'', igProvider = Some google, igRefImages = None \<rparr>"


text \<open>A backend predicate: the calls for the panel \<open>n\<close> fail.\<close>

definition exFailsOn :: "string \<Rightarrow> nat \<Rightarrow> ImageGenOptions \<Rightarrow> bool" where
  "exFailsOn n k opts = (igOutput opts = ''out/panels/'' @ n @ ''.png'')"



definition exAfterFirstRun :: world where
  "exAfterFirstRun =
     snd (generateSinglePanel (exEnv (\<lambda>n opts. False)) (exJob ''a'') (exConfig ''3:4'' []) ''out''
            google (exWorld []))"









section \<open>Properties of the provider adapter and the job runner\<close>

declare retryLoop.simps [simp del]

lemma callImageGen_calls: "calls (snd (callImageGen be opts wd)) = calls wd @ [opts]"
  by (simp add: callImageGen_def Let_def split: option.splits)

lemma callImageGen_files_mono: "set (files wd) \<subseteq> set (files (snd (callImageGen be opts wd)))"
  by (auto simp: callImageGen_def Let_def split: option.splits)

lemma callImageGen_Inr_file:
  "callImageGen be opts wd = (Inr u, wd1) \<Longrightarrow> igOutput opts \<in> set (files wd1)"
  by (auto simp: callImageGen_def Let_def split: option.splits)

lemma retryLoop_Inr_file:
  "retryLoop be opts m a le wd = (Inr u, wd') \<Longrightarrow> igOutput opts \<in> set (files wd')"
proof (induction be opts m a le wd rule: retryLoop.induct)
  case (1 be opts m a le wd)
  show ?case
  proof (cases "a \<le> m")
    case False
    with "1.prems" show ?thesis
      by (subst (asm) retryLoop.simps) (simp split: option.splits)
  next
    case True
    obtain r wd1 where c: "callImageGen be opts wd = (r, wd1)" by (cases "callImageGen be opts wd")
    show ?thesis
    proof (cases r)
      case (Inr v)
      with True c "1.prems" have "wd' = wd1"
        by (subst (asm) retryLoop.simps) simp
      with c Inr show ?thesis by (auto dest: callImageGen_Inr_file)
    next
      case (Inl e)
      with True c "1.prems" have
        "retryLoop be opts m (a + 1) (Some e)
           (if a < m then wd1\<lparr>log := log wd1 @ [RetryWarning (a + 1)]\<rparr> else wd1) = (Inr u, wd')"
        by (subst (asm) retryLoop.simps) simp
      then show ?thesis by (rule "1.IH"[OF True c[symmetric] Inl])
    qed
  qed
qed


lemma retryLoop_calls:
  "\<exists>k. k \<le> m + 1 - a \<and> (a \<le> m \<longrightarrow> 1 \<le> k) \<and>
       calls (snd (retryLoop be opts m a le wd)) = calls wd @ replicate k opts"
proof (induction be opts m a le wd rule: retryLoop.induct)
  case (1 be opts m a le wd)
  show ?case
  proof (cases "a \<le> m")
    case False
    then have "calls (snd (retryLoop be opts m a le wd)) = calls wd @ replicate 0 opts"
      by (subst retryLoop.simps) (simp split: option.splits)
    with False show ?thesis by (intro exI[of _ 0]) simp
  next
    case True
    obtain r wd1 where c: "callImageGen be opts wd = (r, wd1)" by (cases "callImageGen be opts wd")
    have c1: "calls wd1 = calls wd @ [opts]" using callImageGen_calls[of be opts wd] c by simp
    show ?thesis
    proof (cases r)
      case (Inr v)
      with True c have "snd (retryLoop be opts m a le wd) = wd1"
        by (subst retryLoop.simps) simp
      with c1 have "calls (snd (retryLoop be opts m a le wd)) = calls wd @ replicate 1 opts" by simp
      with True show ?thesis by (intro exI[of _ 1]) simp
    next
      case (Inl e)
      let ?wd2 = "if a < m then wd1\<lparr>log := log wd1 @ [RetryWarning (a + 1)]\<rparr> else wd1"
      have unf: "retryLoop be opts m a le wd = retryLoop be opts m (a + 1) (Some e) ?wd2"
        using True c Inl by (subst retryLoop.simps) simp
      from "1.IH"[OF True c[symmetric] Inl] obtain k where
        k: "k \<le> m + 1 - (a + 1)"
        and ck: "calls (snd (retryLoop be opts m (a + 1) (Some e) ?wd2)) = calls ?wd2 @ replicate k opts"
        by blast
      have "calls ?wd2 = calls wd @ [opts]" using c1 by simp
      with ck have "calls (snd (retryLoop be opts m a le wd)) = calls wd @ replicate (Suc k) opts"
        by (simp add: unf)
      moreover have "Suc k \<le> m + 1 - a" using k True by simp
      ultimately show ?thesis by (intro exI[of _ "Suc k"]) simp
    qed
  qed
qed



lemma retry_all_fail:
  assumes "\<forall>k<3. be (length (calls wd) + k) opts \<noteq> None"
  shows "callImageGenWithRetry be opts 2 wd =
       (Inl (ProviderError (the (be (length (calls wd) + 2) opts))),
        wd\<lparr>calls := calls wd @ [opts, opts, opts],
           log := log wd @ [RetryWarning 1, RetryWarning 2]\<rparr>)"
proof -
  from assms obtain m0 m1 m2 where
    f0: "be (length (calls wd)) opts = Some m0" and
    f1: "be (Suc (length (calls wd))) opts = Some m1" and
    f2: "be (Suc (Suc (length (calls wd)))) opts = Some m2"
  proof -
    have "be (length (calls wd) + 0) opts \<noteq> None" "be (length (calls wd) + 1) opts \<noteq> None"
         "be (length (calls wd) + 2) opts \<noteq> None"
      using assms[rule_format, of 0] assms[rule_format, of 1] assms[rule_format, of 2] by simp_all
    then show ?thesis using that by (auto simp: numeral_2_eq_2)
  qed
  show ?thesis
    by (simp add: callImageGenWithRetry_def retryLoop.simps callImageGen_def Let_def f0 f1 f2
        numeral_2_eq_2 numeral_3_eq_3)
qed

lemma retry_success_at:
  assumes "j < 3" and "\<forall>k<j. be (length (calls wd) + k) opts \<noteq> None"
    and "be (length (calls wd) + j) opts = None"
  shows "fst (callImageGenWithRetry be opts 2 wd) = Inr () \<and>
         calls (snd (callImageGenWithRetry be opts 2 wd)) = calls wd @ replicate (j + 1) opts"
proof -
  from assms(1) consider "j = 0" | "j = 1" | "j = 2" by linarith
  then show ?thesis
  proof cases
    case 1
    with assms(3) show ?thesis
      by (simp add: callImageGenWithRetry_def retryLoop.simps callImageGen_def Let_def)
  next
    case 2
    with assms(2) obtain m0 where f0: "be (length (calls wd)) opts = Some m0" by auto
    from 2 assms(3) have s1: "be (Suc (length (calls wd))) opts = None" by simp
    show ?thesis using 2
      by (simp add: callImageGenWithRetry_def retryLoop.simps callImageGen_def Let_def f0 s1)
  next
    case 3
    with assms(2)[rule_format, of 0] assms(2)[rule_format, of 1]
    have "be (length (calls wd) + 0) opts \<noteq> None" "be (length (calls wd) + 1) opts \<noteq> None"
      by simp_all
    then obtain m0 m1 where f0: "be (length (calls wd)) opts = Some m0"
      and f1: "be (Suc (length (calls wd))) opts = Some m1" by auto
    from 3 assms(3) have s2: "be (Suc (Suc (length (calls wd)))) opts = None" by simp
    show ?thesis using 3
      by (simp add: callImageGenWithRetry_def retryLoop.simps callImageGen_def Let_def f0 f1 s2
          numeral_2_eq_2)
  qed
qed

lemma generateSinglePanel_calls:
  "\<exists>k\<le>3. calls (snd (generateSinglePanel env item config outputDir provider wd)) =
      calls wd @ replicate k (panelOptions env item config outputDir provider wd)"
proof (cases "existsSync (panelOutputPath outputDir (jobPanel item)) wd")
  case True
  then show ?thesis by (intro exI[of _ 0]) (simp add: generateSinglePanel_def)
next
  case False
  let ?wd = "wd\<lparr>log := log wd @ [PromptBuilt (panelId (jobPanel item))]\<rparr>"
  let ?o = "panelOptions env item config outputDir provider wd"
  from retryLoop_calls[of 2 0 "imageBackend env" ?o None ?wd]
  obtain k where "k \<le> 3" "calls (snd (retryLoop (imageBackend env) ?o 2 0 None ?wd)) = calls ?wd @ replicate k ?o"
    by auto
  with False show ?thesis
    by (intro exI[of _ k]) (simp add: generateSinglePanel_def callImageGenWithRetry_def)
qed


text \<open>
  C2. A job whose target file \<^verbatim>\<open><outputDir>/panels/<panelId>.png\<close> exists returns at once
  and leaves the world as it was: no provider call, no prompt built, no file written.
  Hence a second run of a job that has succeeded changes nothing and calls no provider.
\<close>

theorem generateSinglePanel_skips_existing:
  "(existsSync (panelOutputPath outputDir (jobPanel item)) wd \<longrightarrow>
      generateSinglePanel env item config outputDir provider wd = (Inr (), wd)) \<and>
   (generateSinglePanel env item config outputDir provider wd0 = (Inr (), wd1) \<longrightarrow>
      generateSinglePanel env item config outputDir provider wd1 = (Inr (), wd1))"
proof (intro conjI impI)
  assume "existsSync (panelOutputPath outputDir (jobPanel item)) wd"
  then show "generateSinglePanel env item config outputDir provider wd = (Inr (), wd)"
    by (simp add: generateSinglePanel_def)
next
  assume run: "generateSinglePanel env item config outputDir provider wd0 = (Inr (), wd1)"
  have "existsSync (panelOutputPath outputDir (jobPanel item)) wd1"
  proof (cases "existsSync (panelOutputPath outputDir (jobPanel item)) wd0")
    case True
    with run show ?thesis by (simp add: generateSinglePanel_def)
  next
    case False
    with run have
      "retryLoop (imageBackend env) (panelOptions env item config outputDir provider wd0) 2 0 None
         (wd0\<lparr>log := log wd0 @ [PromptBuilt (panelId (jobPanel item))]\<rparr>) = (Inr (), wd1)"
      by (simp add: generateSinglePanel_def callImageGenWithRetry_def)
    then have "igOutput (panelOptions env item config outputDir provider wd0) \<in> set (files wd1)"
      by (rule retryLoop_Inr_file)
    then show ?thesis by (simp add: existsSync_def panelOptions_def Let_def)
  qed
  then show "generateSinglePanel env item config outputDir provider wd1 = (Inr (), wd1)"
    by (simp add: generateSinglePanel_def)
qed

theorem generateSinglePanel_skips_existing_witness:
  "existsSync (panelOutputPath ''out'' (jobPanel (exJob ''a''))) (exWorld [''out/panels/a.png'']) \<and>
   generateSinglePanel (exEnv (\<lambda>n opts. True)) (exJob ''a'') (exConfig ''3:4'' []) ''out'' google
       (exWorld [''out/panels/a.png'']) = (Inr (), exWorld [''out/panels/a.png'']) \<and>
   generateSinglePanel (exEnv (\<lambda>n opts. False)) (exJob ''a'') (exConfig ''3:4'' []) ''out'' google
       (exWorld []) = (Inr (), exAfterFirstRun) \<and>
   length (calls exAfterFirstRun) = 1 \<and>
   generateSinglePanel (exEnv (\<lambda>n opts. False)) (exJob ''a'') (exConfig ''3:4'' []) ''out'' google
       exAfterFirstRun = (Inr (), exAfterFirstRun)"
proof -
  have h1: "existsSync (panelOutputPath ''out'' (jobPanel (exJob ''a''))) (exWorld [''out/panels/a.png''])"
    by code_simp
  have h2: "generateSinglePanel (exEnv (\<lambda>n opts. False)) (exJob ''a'') (exConfig ''3:4'' []) ''out''
      google (exWorld []) = (Inr (), exAfterFirstRun)"
    by code_simp
  have h3: "length (calls exAfterFirstRun) = 1"
    by code_simp
  from generateSinglePanel_skips_existing[of "''out''" "exJob ''a''" "exWorld [''out/panels/a.png'']"
      "exEnv (\<lambda>n opts. True)" "exConfig ''3:4'' []" google]
  have c1: "generateSinglePanel (exEnv (\<lambda>n opts. True)) (exJob ''a'') (exConfig ''3:4'' []) ''out''
      google (exWorld [''out/panels/a.png'']) = (Inr (), exWorld [''out/panels/a.png''])"
    using h1 by blast
  from generateSinglePanel_skips_existing[of "''out''" "exJob ''a''" "exWorld []"
      "exEnv (\<lambda>n opts. False)" "exConfig ''3:4'' []" google "exWorld []" exAfterFirstRun]
  have c2: "generateSinglePanel (exEnv (\<lambda>n opts. False)) (exJob ''a'') (exConfig ''3:4'' []) ''out''
      google exAfterFirstRun = (Inr (), exAfterFirstRun)"
    using h2 by blast
  from h1 h2 h3 c1 c2 show ?thesis by blast
qed

text \<open>
  C3. With two retries, a provider that fails at every attempt is called exactly three
  times with the same options, two retry warnings are logged, and the error of the third
  attempt is raised. An attempt that succeeds ends the loop at once, so that a retried
  call, and hence a job, never makes more than three provider calls.
\<close>

theorem callImageGenWithRetry_three_calls:
  "((\<forall>k<3. be (length (calls wd) + k) opts \<noteq> None) \<longrightarrow>
      callImageGenWithRetry be opts 2 wd =
        (Inl (ProviderError (the (be (length (calls wd) + 2) opts))),
         wd\<lparr>calls := calls wd @ [opts, opts, opts],
            log := log wd @ [RetryWarning 1, RetryWarning 2]\<rparr>)) \<and>
   (j < 3 \<and> (\<forall>k<j. be' (length (calls wd') + k) opts' \<noteq> None) \<and>
      be' (length (calls wd') + j) opts' = None \<longrightarrow>
      fst (callImageGenWithRetry be' opts' 2 wd') = Inr () \<and>
      calls (snd (callImageGenWithRetry be' opts' 2 wd')) = calls wd' @ replicate (j + 1) opts') \<and>
   (\<exists>k. 1 \<le> k \<and> k \<le> 3 \<and>
      calls (snd (callImageGenWithRetry be opts 2 wd)) = calls wd @ replicate k opts) \<and>
   length (calls (snd (generateSinglePanel env item config outputDir provider wd)))
     \<le> length (calls wd) + 3"
proof (intro conjI impI)
  assume "\<forall>k<3. be (length (calls wd) + k) opts \<noteq> None"
  then show "callImageGenWithRetry be opts 2 wd =
        (Inl (ProviderError (the (be (length (calls wd) + 2) opts))),
         wd\<lparr>calls := calls wd @ [opts, opts, opts],
            log := log wd @ [RetryWarning 1, RetryWarning 2]\<rparr>)"
    by (rule retry_all_fail)
next
  assume a: "j < 3 \<and> (\<forall>k<j. be' (length (calls wd') + k) opts' \<noteq> None) \<and>
      be' (length (calls wd') + j) opts' = None"
  then show "fst (callImageGenWithRetry be' opts' 2 wd') = Inr ()"
    using retry_success_at[of j be' wd' opts'] by blast
  from a show "calls (snd (callImageGenWithRetry be' opts' 2 wd')) = calls wd' @ replicate (j + 1) opts'"
    using retry_success_at[of j be' wd' opts'] by blast
next
  from retryLoop_calls[of 2 0 be opts None wd]
  show "\<exists>k. 1 \<le> k \<and> k \<le> 3 \<and>
      calls (snd (callImageGenWithRetry be opts 2 wd)) = calls wd @ replicate k opts"
    by (auto simp: callImageGenWithRetry_def)
next
  from generateSinglePanel_calls[of env item config outputDir provider wd]
  show "length (calls (snd (generateSinglePanel env item config outputDir provider wd)))
     \<le> length (calls wd) + 3"
    by auto
qed

theorem callImageGenWithRetry_three_calls_witness:
  "exBackend (\<lambda>n opts. True) 0 exOptions = Some ''provider down'' \<and>
   exBackend (\<lambda>n opts. True) 1 exOptions = Some ''provider down'' \<and>
   exBackend (\<lambda>n opts. True) 2 exOptions = Some ''provider down'' \<and>
   callImageGenWithRetry (exBackend (\<lambda>n opts. True)) exOptions 2 (exWorld []) =
     (Inl (ProviderError ''provider down''),
      \<lparr> files = [], calls = [exOptions, exOptions, exOptions],
        log = [RetryWarning 1, RetryWarning 2] \<rparr>) \<and>
   exBackend (\<lambda>n opts. n < 1) 0 exOptions = Some ''provider down'' \<and>
   exBackend (\<lambda>n opts. n < 1) 1 exOptions = None \<and>
   fst (callImageGenWithRetry (exBackend (\<lambda>n opts. n < 1)) exOptions 2 (exWorld [])) = Inr () \<and>
   calls (snd (callImageGenWithRetry (exBackend (\<lambda>n opts. n < 1)) exOptions 2 (exWorld [])))
     = [exOptions, exOptions]"
proof -
  have h1: "\<forall>k<3. exBackend (\<lambda>n opts. True) (length (calls (exWorld [])) + k) exOptions \<noteq> None"
    by (simp add: exBackend_def)
  have h2: "(1::nat) < 3 \<and>
      (\<forall>k<1. exBackend (\<lambda>n opts. n < 1) (length (calls (exWorld [])) + k) exOptions \<noteq> None) \<and>
      exBackend (\<lambda>n opts. n < 1) (length (calls (exWorld [])) + 1) exOptions = None"
    by (simp add: exBackend_def exWorld_def)
  from callImageGenWithRetry_three_calls[of "exBackend (\<lambda>n opts. True)" "exWorld []" exOptions
      1 "exBackend (\<lambda>n opts. n < 1)" "exWorld []" exOptions] h1 h2
  show ?thesis
    by (simp add: exWorld_def exBackend_def numeral_2_eq_2)
qed

section \<open>Properties of the generation controller\<close>



lemma filter_isProgress_retry [simp]: "filter isProgress (map RetryWarning ws) = []"
  by (induction ws) (simp_all add: isProgress_def)





lemma clampConcurrency_pos: "1 \<le> clampConcurrency conc"
  by (simp add: clampConcurrency_def split: option.splits)

declare batchLoop.simps [simp del]






text \<open>
  C4. A per-job failure is caught at the controller and the run goes on to the remaining
  jobs, under both strategies. The sequential strategy does not do this: it awaits
  \<^verbatim>\<open>generateSinglePanel\<close> with no handler, so that with two jobs whose first fails at
  every attempt the error leaves \<^verbatim>\<open>generatePanelSequential\<close> and the second job is
  never attempted, while \<^verbatim>\<open>generatePanelParallel\<close> on the same jobs returns normally
  and produces the file of the second job.
\<close>

theorem generatePanelSequential_propagates_failure:
  "fst (generatePanelSequential (exEnv (exFailsOn ''a'')) [exJob ''a'', exJob ''b'']
          (exConfig ''3:4'' []) ''out'' google (exWorld [])) = Inl (ProviderError ''provider down'') \<and>
   map igOutput (calls (snd (generatePanelSequential (exEnv (exFailsOn ''a'')) [exJob ''a'', exJob ''b'']
          (exConfig ''3:4'' []) ''out'' google (exWorld []))))
     = [''out/panels/a.png'', ''out/panels/a.png'', ''out/panels/a.png''] \<and>
   files (snd (generatePanelSequential (exEnv (exFailsOn ''a'')) [exJob ''a'', exJob ''b'']
          (exConfig ''3:4'' []) ''out'' google (exWorld []))) = [] \<and>
   fst (generatePanelParallel (exEnv (exFailsOn ''a'')) [exJob ''a'', exJob ''b'']
          (exConfig ''3:4'' []) ''out'' google (Some 2) (exWorld [])) = Inr () \<and>
   files (snd (generatePanelParallel (exEnv (exFailsOn ''a'')) [exJob ''a'', exJob ''b'']
          (exConfig ''3:4'' []) ''out'' google (Some 2) (exWorld []))) = [''out/panels/b.png'']"
  by code_simp

section \<open>Properties of the grid geometry\<close>

text \<open>
  Where no explicit zero is involved, \<^verbatim>\<open>calculatePanelBoundsCustom\<close> computes the
  rectangle of the grid formulas, with gutter 10 and spans 1 for absent fields.
\<close>

lemma calculatePanelBoundsCustom_formula:
  assumes "gutter g \<noteq> Some 0" and "rowspan pn \<noteq> Some 0" and "colspan pn \<noteq> Some 0"
  shows "calculatePanelBoundsCustom pn g pageSize =
     (let rowspan' = paramDefault (rowspan pn) 1;
          colspan' = paramDefault (colspan pn) 1;
          gutter' = paramDefault (gutter g) 10;
          cellWidth = (width pageSize - gutter' * (cols g + 1)) / cols g;
          cellHeight = (height pageSize - gutter' * (rows g + 1)) / rows g
      in \<lparr> boundsX = gutter' + col (position pn) * (cellWidth + gutter'),
           boundsY = gutter' + row (position pn) * (cellHeight + gutter'),
           boundsW = colspan' * cellWidth + (colspan' - 1) * gutter',
           boundsH = rowspan' * cellHeight + (rowspan' - 1) * gutter' \<rparr>)"
  using assms
  by (simp add: calculatePanelBoundsCustom_def orDefault_def paramDefault_def split: option.splits)

text \<open>
  C1. The bounds are those of the grid formulas for every grid, an absent gutter counting
  as 10. The code departs from this for a gutter of 0, which \<^verbatim>\<open>grid.gutter || 10\<close> turns
  into 10: on the one-cell grid that \<^verbatim>\<open>getLayoutGrid\<close> returns for the layout
  \<^verbatim>\<open>splash\<close> (gutter 0) and a page of 1200 by 1600 the formulas give the rectangle
  (0, 0, 1200, 1600), and the code returns (10, 10, 1180, 1580). The sibling
  \<^verbatim>\<open>calculateGridDimensions\<close>, whose gutter is a default parameter, keeps the 0.
\<close>

theorem calculatePanelBoundsCustom_gutter_zero:
  "calculatePanelBoundsCustom (exPanel ''a'') (getLayoutGrid ''splash'' 1)
       \<lparr> width = 1200, height = 1600 \<rparr>
     = \<lparr> boundsX = 10, boundsY = 10, boundsW = 1180, boundsH = 1580 \<rparr> \<and>
   calculateGridDimensions 1 1 \<lparr> width = 1200, height = 1600 \<rparr> (Some 0) = (1200, 1600)"
  by (simp add: calculatePanelBoundsCustom_def calculateGridDimensions_def getLayoutGrid_def
      exPanel_def orDefault_def paramDefault_def)




section \<open>Properties of the aspect ratio\<close>





lemma mathRound_of_int [simp]: "mathRound (of_int p) = p"
  unfolding mathRound_def by linarith




section \<open>Properties of the page size\<close>











section \<open>Properties of the selection and the work enumeration\<close>



lemma setInsertAll_set: "set (setInsertAll seen xs) = set seen \<union> set xs"
  by (induction seen xs rule: setInsertAll.induct) auto

lemma setInsertAll_distinct: "distinct seen \<Longrightarrow> distinct (setInsertAll seen xs)"
  by (induction seen xs rule: setInsertAll.induct) auto


lemma newSet_set [simp]: "set (newSet xs) = set xs"
  by (simp add: newSet_def setInsertAll_set)

lemma newSet_distinct [simp]: "distinct (newSet xs)"
  by (simp add: newSet_def setInsertAll_distinct)
































end
